theory Spec2Isabelle
  imports Main "HOL-Library.Multiset" "HOL-Library.Char_ord" "HOL-Library.List_Lexorder"
begin

section \<open>Data model: the tables of the migrations\<close>

text \<open>
  Rows follow the \<open>Row\<close> types of \<open>database.types\<close> (nullable columns are options) and the
  \<open>CREATE TABLE\<close> statements of the migrations. A \<open>uuid\<close> is the string the client sees, a
  \<open>timestamptz\<close> is a point on the time line. The \<open>created_at\<close> and \<open>assigned_at\<close> columns
  occur in no policy, constraint or query of the sources and are left out.
\<close>

type_synonym uuid = string
type_synonym timestamptz = int

datatype role = Admin | Team_leader | Operator

record profile_row =
  p_id :: uuid
  p_email :: string
  p_full_name :: string
  p_role :: role
  p_updated_at :: timestamptz

record department_row =
  d_id :: uuid
  d_name :: string
  d_description :: string
  d_created_by :: "uuid option"

record department_leader_row =
  dl_id :: uuid
  dl_department_id :: uuid
  dl_user_id :: uuid
  dl_assigned_by :: "uuid option"

record machine_operator_row =
  mo_id :: uuid
  mo_machine_id :: uuid
  mo_user_id :: uuid
  mo_assigned_by :: "uuid option"

record machine_row =
  m_id :: uuid
  m_machine_code :: string
  m_machine_name :: string
  m_description :: string
  m_current_status :: string
  m_last_updated_at :: timestamptz
  m_last_updated_by :: "uuid option"
  m_department_id :: "uuid option"

record status_type_row =
  st_id :: uuid
  st_name :: string
  st_color :: string
  st_is_default :: bool
  st_is_active :: bool
  st_display_order :: int
  st_created_by :: "uuid option"

record status_history_row =
  h_id :: uuid
  h_machine_id :: uuid
  h_status :: string
  h_previous_status :: string
  h_comment :: string
  h_changed_by :: uuid
  h_changed_at :: timestamptz

text \<open>The database: one list of rows per table.\<close>

record db =
  profiles :: "profile_row list"
  departments :: "department_row list"
  department_leaders :: "department_leader_row list"
  machine_operators :: "machine_operator_row list"
  machines :: "machine_row list"
  status_types :: "status_type_row list"
  status_history :: "status_history_row list"

text \<open>
  The caller of a statement: the database role \<open>anon\<close>, or the role \<open>authenticated\<close>
  together with \<open>auth.uid()\<close>.
\<close>

datatype auth = Anon | Authenticated uuid

text \<open>
  What a statement can answer instead of a new database: a row that violates a
  \<open>WITH CHECK\<close> of row level security, a primary key or \<open>UNIQUE\<close> constraint, or a foreign
  key.
\<close>

datatype error = AuthorizationDenied | UniqueViolation | ForeignKeyViolation

section \<open>Row level security policies\<close>

text \<open>
  \<open>EXISTS (SELECT 1 FROM profiles WHERE profiles.id = auth.uid() AND profiles.role IN (...))\<close>
\<close>

definition profile_role_in :: "db \<Rightarrow> uuid \<Rightarrow> role list \<Rightarrow> bool" where
  "profile_role_in s uid rs = list_ex (\<lambda>p. p_id p = uid \<and> p_role p \<in> set rs) (profiles s)"

text \<open>
  \<open>EXISTS (SELECT 1 FROM department_leaders WHERE department_leaders.user_id = auth.uid()
  AND department_leaders.department_id = machines.department_id)\<close>; the comparison with a
  \<open>NULL\<close> department is never true.
\<close>

definition leads_department :: "db \<Rightarrow> uuid \<Rightarrow> uuid option \<Rightarrow> bool" where
  "leads_department s uid dept =
     (case dept of
        None \<Rightarrow> False
      | Some d \<Rightarrow> list_ex (\<lambda>l. dl_user_id l = uid \<and> dl_department_id l = d) (department_leaders s))"

text \<open>
  \<open>EXISTS (SELECT 1 FROM machine_operators WHERE machine_operators.user_id = auth.uid()
  AND machine_operators.machine_id = machines.id)\<close>
\<close>

definition operates_machine :: "db \<Rightarrow> uuid \<Rightarrow> uuid \<Rightarrow> bool" where
  "operates_machine s uid mid =
     list_ex (\<lambda>a. mo_user_id a = uid \<and> mo_machine_id a = mid) (machine_operators s)"

subsection \<open>machines\<close>

text \<open>
  \<open>Operators can view assigned machines\<close> (\<open>TO authenticated\<close>) and
  \<open>Anyone can view machines\<close> (\<open>TO anon USING (true)\<close>).
\<close>

definition machines_select_policy :: "db \<Rightarrow> auth \<Rightarrow> machine_row \<Rightarrow> bool" where
  "machines_select_policy s a m =
     (case a of
        Anon \<Rightarrow> True
      | Authenticated uid \<Rightarrow>
          profile_role_in s uid [Admin]
          \<or> leads_department s uid (m_department_id m)
          \<or> operates_machine s uid (m_id m))"

text \<open>\<open>Admins and team leaders can insert machines\<close>\<close>

definition machines_insert_policy :: "db \<Rightarrow> auth \<Rightarrow> machine_row \<Rightarrow> bool" where
  "machines_insert_policy s a m =
     (case a of
        Anon \<Rightarrow> False
      | Authenticated uid \<Rightarrow>
          profile_role_in s uid [Admin]
          \<or> (profile_role_in s uid [Team_leader]
              \<and> leads_department s uid (m_department_id m)))"

text \<open>\<open>Admins can delete machines\<close>\<close>

definition machines_delete_policy :: "db \<Rightarrow> auth \<Rightarrow> machine_row \<Rightarrow> bool" where
  "machines_delete_policy s a m =
     (case a of Anon \<Rightarrow> False | Authenticated uid \<Rightarrow> profile_role_in s uid [Admin])"

subsection \<open>departments, department_leaders, machine_operators\<close>

text \<open>\<open>Admins can delete departments\<close>\<close>

definition departments_delete_policy :: "db \<Rightarrow> auth \<Rightarrow> department_row \<Rightarrow> bool" where
  "departments_delete_policy s a d =
     (case a of Anon \<Rightarrow> False | Authenticated uid \<Rightarrow> profile_role_in s uid [Admin])"





subsection \<open>status_types\<close>

text \<open>\<open>Admins can update status types\<close> (\<open>USING\<close> and \<open>WITH CHECK\<close> are the same test)\<close>

definition status_types_update_policy :: "db \<Rightarrow> auth \<Rightarrow> status_type_row \<Rightarrow> bool" where
  "status_types_update_policy s a t =
     (case a of Anon \<Rightarrow> False | Authenticated uid \<Rightarrow> profile_role_in s uid [Admin])"

text \<open>\<open>Admins can delete status types\<close>\<close>

definition status_types_delete_policy :: "db \<Rightarrow> auth \<Rightarrow> status_type_row \<Rightarrow> bool" where
  "status_types_delete_policy s a t =
     (case a of
        Anon \<Rightarrow> False
      | Authenticated uid \<Rightarrow> profile_role_in s uid [Admin] \<and> st_is_default t = False)"

subsection \<open>status_history\<close>

text \<open>
  \<open>All users can view status history\<close> (\<open>TO authenticated USING (true)\<close>) and
  \<open>Anyone can view status history\<close> (\<open>TO anon USING (true)\<close>).
\<close>

definition status_history_select_policy :: "db \<Rightarrow> auth \<Rightarrow> status_history_row \<Rightarrow> bool" where
  "status_history_select_policy s a h = (case a of Anon \<Rightarrow> True | Authenticated uid \<Rightarrow> True)"

text \<open>\<open>Admins and operators can insert status history\<close>\<close>

definition status_history_insert_policy :: "db \<Rightarrow> auth \<Rightarrow> status_history_row \<Rightarrow> bool" where
  "status_history_insert_policy s a h =
     (case a of
        Anon \<Rightarrow> False
      | Authenticated uid \<Rightarrow>
          uid = h_changed_by h \<and> profile_role_in s uid [Admin, Operator])"

text \<open>
  The migrations create no \<open>UPDATE\<close> and no \<open>DELETE\<close> policy on \<open>status_history\<close>; with row
  level security enabled, a command without a policy sees no row.
\<close>

definition status_history_update_policy :: "db \<Rightarrow> auth \<Rightarrow> status_history_row \<Rightarrow> bool" where
  "status_history_update_policy s a h = False"

definition status_history_delete_policy :: "db \<Rightarrow> auth \<Rightarrow> status_history_row \<Rightarrow> bool" where
  "status_history_delete_policy s a h = False"

subsection \<open>profiles\<close>

text \<open>
  \<open>Users can update own profile\<close>: \<open>USING (auth.uid() = id)\<close> selects the rows the command
  may touch, \<open>WITH CHECK (auth.uid() = id AND role = (SELECT role FROM profiles WHERE id =
  auth.uid()))\<close> tests the new row against the table as it was before the command. The scalar
  subquery is \<open>NULL\<close> when the caller has no profile, and the comparison then fails.
\<close>

definition profiles_update_using :: "db \<Rightarrow> auth \<Rightarrow> profile_row \<Rightarrow> bool" where
  "profiles_update_using s a p =
     (case a of Anon \<Rightarrow> False | Authenticated uid \<Rightarrow> uid = p_id p)"

definition profiles_update_check :: "db \<Rightarrow> auth \<Rightarrow> profile_row \<Rightarrow> bool" where
  "profiles_update_check s a p' =
     (case a of
        Anon \<Rightarrow> False
      | Authenticated uid \<Rightarrow>
          uid = p_id p'
          \<and> (case find (\<lambda>q. p_id q = uid) (profiles s) of
                None \<Rightarrow> False
              | Some q \<Rightarrow> p_role p' = p_role q))"

section \<open>Ordering\<close>

text \<open>
  \<open>ORDER BY changed_at DESC\<close>, which is \<open>.order('changed_at', { ascending: false })\<close> in
  the client, and \<open>.order('machine_code')\<close>, with codes compared as lists of characters.
  PostgreSQL leaves the order of rows with equal keys open; here they keep the order in which
  they are stored, which is one of the orders it may return.
\<close>

definition order_changed_at_desc :: "status_history_row list \<Rightarrow> status_history_row list" where
  "order_changed_at_desc hs = sort_key (\<lambda>h. - h_changed_at h) hs"


section \<open>Statements under row level security\<close>

subsection \<open>INSERT INTO status_history\<close>

text \<open>
  The \<open>WITH CHECK\<close> of the policy is tested first; then the primary key; then the foreign
  keys \<open>machine_id REFERENCES machines(id)\<close> and \<open>changed_by REFERENCES profiles(id)\<close>.
\<close>

definition insert_status_history :: "auth \<Rightarrow> status_history_row \<Rightarrow> db \<Rightarrow> error + db" where
  "insert_status_history a h s =
     (if \<not> status_history_insert_policy s a h then Inl AuthorizationDenied
      else if h_id h \<in> set (map h_id (status_history s)) then Inl UniqueViolation
      else if h_machine_id h \<notin> set (map m_id (machines s))
              \<or> h_changed_by h \<notin> set (map p_id (profiles s)) then Inl ForeignKeyViolation
      else Inr (s\<lparr>status_history := status_history s @ [h]\<rparr>))"

subsection \<open>INSERT INTO machines\<close>

text \<open>
  The \<open>WITH CHECK\<close> of \<open>Admins and team leaders can insert machines\<close>; then the primary key
  and \<open>machine_code text UNIQUE\<close>; then the foreign keys
  \<open>department_id REFERENCES departments(id)\<close> and \<open>last_updated_by REFERENCES profiles(id)\<close>,
  which a \<open>NULL\<close> satisfies.
\<close>

definition references :: "uuid option \<Rightarrow> uuid list \<Rightarrow> bool" where
  "references ref ids = (case ref of None \<Rightarrow> True | Some k \<Rightarrow> k \<in> set ids)"

definition insert_machine :: "auth \<Rightarrow> machine_row \<Rightarrow> db \<Rightarrow> error + db" where
  "insert_machine a m s =
     (if \<not> machines_insert_policy s a m then Inl AuthorizationDenied
      else if m_id m \<in> set (map m_id (machines s))
              \<or> m_machine_code m \<in> set (map m_machine_code (machines s))
           then Inl UniqueViolation
      else if \<not> references (m_department_id m) (map d_id (departments s))
              \<or> \<not> references (m_last_updated_by m) (map p_id (profiles s))
           then Inl ForeignKeyViolation
      else Inr (s\<lparr>machines := machines s @ [m]\<rparr>))"

subsection \<open>INSERT INTO department_leaders\<close>


subsection \<open>INSERT INTO and DELETE FROM machine_operators\<close>



subsection \<open>DELETE FROM departments, DELETE FROM machines\<close>

text \<open>
  \<open>supabase.from('departments').delete().eq('id', id)\<close>. A row the \<open>USING\<close> of the policy
  hides is not deleted, and that is no error. \<open>machines.department_id\<close> is declared
  \<open>uuid REFERENCES departments(id)\<close> with no \<open>ON DELETE\<close> action, so a machine that still
  points to the department makes the statement fail; \<open>department_leaders.department_id\<close> is
  declared \<open>ON DELETE CASCADE\<close>.
\<close>

definition delete_department :: "auth \<Rightarrow> uuid \<Rightarrow> db \<Rightarrow> error + db" where
  "delete_department a did s =
     (if \<not> list_ex (\<lambda>d. d_id d = did \<and> departments_delete_policy s a d) (departments s)
      then Inr s
      else if list_ex (\<lambda>m. m_department_id m = Some did) (machines s)
      then Inl ForeignKeyViolation
      else Inr (s\<lparr>departments :=
                    filter (\<lambda>d. \<not> (d_id d = did \<and> departments_delete_policy s a d)) (departments s),
                  department_leaders :=
                    filter (\<lambda>l. dl_department_id l \<noteq> did) (department_leaders s)\<rparr>))"

text \<open>
  \<open>supabase.from('machines').delete().eq('id', id)\<close>. Both tables that reference
  \<open>machines(id)\<close>, \<open>machine_operators\<close> and \<open>status_history\<close>, are declared
  \<open>ON DELETE CASCADE\<close>.
\<close>

definition delete_machine :: "auth \<Rightarrow> uuid \<Rightarrow> db \<Rightarrow> db" where
  "delete_machine a mid s =
     (if \<not> list_ex (\<lambda>m. m_id m = mid \<and> machines_delete_policy s a m) (machines s)
      then s
      else s\<lparr>machines :=
                filter (\<lambda>m. \<not> (m_id m = mid \<and> machines_delete_policy s a m)) (machines s),
              machine_operators := filter (\<lambda>r. mo_machine_id r \<noteq> mid) (machine_operators s),
              status_history := filter (\<lambda>h. h_machine_id h \<noteq> mid) (status_history s)\<rparr>)"

subsection \<open>UPDATE status_history, DELETE FROM status_history\<close>

text \<open>
  \<open>UPDATE status_history SET ... WHERE cond\<close> and \<open>DELETE FROM status_history WHERE cond\<close>
  touch the rows that satisfy \<open>cond\<close> and the policy of the command.
\<close>

definition update_status_history ::
  "auth \<Rightarrow> (status_history_row \<Rightarrow> bool) \<Rightarrow> (status_history_row \<Rightarrow> status_history_row)
     \<Rightarrow> db \<Rightarrow> db" where
  "update_status_history a cond f s =
     s\<lparr>status_history :=
         map (\<lambda>h. if cond h \<and> status_history_update_policy s a h then f h else h)
           (status_history s)\<rparr>"

definition delete_status_history :: "auth \<Rightarrow> (status_history_row \<Rightarrow> bool) \<Rightarrow> db \<Rightarrow> db" where
  "delete_status_history a cond s =
     s\<lparr>status_history :=
         filter (\<lambda>h. \<not> (cond h \<and> status_history_delete_policy s a h)) (status_history s)\<rparr>"

subsection \<open>The backfill of previous_status\<close>

text \<open>
  The migration that adds \<open>previous_status\<close> rewrites the records already stored. For
  a record, \<open>SELECT status INTO prev_status ... WHERE machine_id = history_record.machine_id
  AND changed_at < history_record.changed_at ORDER BY changed_at DESC LIMIT 1\<close>:
\<close>

definition previous_status_of ::
  "status_history_row list \<Rightarrow> status_history_row \<Rightarrow> string option" where
  "previous_status_of hs history_record =
     (case order_changed_at_desc
             (filter (\<lambda>h. h_machine_id h = h_machine_id history_record
                          \<and> h_changed_at h < h_changed_at history_record) hs) of
        [] \<Rightarrow> None
      | h # _ \<Rightarrow> Some (h_status h))"

text \<open>
  The body of the loop: \<open>IF prev_status IS NOT NULL THEN UPDATE status_history SET
  previous_status = prev_status WHERE id = history_record.id\<close>.
\<close>

definition backfill_step ::
  "status_history_row \<Rightarrow> status_history_row list \<Rightarrow> status_history_row list" where
  "backfill_step history_record hs =
     (case previous_status_of hs history_record of
        None \<Rightarrow> hs
      | Some prev_status \<Rightarrow>
          map (\<lambda>h. if h_id h = h_id history_record
                   then h\<lparr>h_previous_status := prev_status\<rparr> else h) hs)"

text \<open>
  The loop runs over the records \<open>WHERE previous_status = '' ORDER BY machine_id,
  changed_at\<close>, as they were when it started.
\<close>

definition backfill_previous_status :: "db \<Rightarrow> db" where
  "backfill_previous_status s =
     s\<lparr>status_history :=
         fold backfill_step
           (sort_key h_machine_id
              (sort_key h_changed_at
                 (filter (\<lambda>h. h_previous_status h = []) (status_history s))))
           (status_history s)\<rparr>"

text \<open>Every column of a history record but \<open>previous_status\<close>.\<close>

definition other_columns ::
  "status_history_row \<Rightarrow> uuid \<times> uuid \<times> string \<times> string \<times> uuid \<times> timestamptz" where
  "other_columns h =
     (h_id h, h_machine_id h, h_status h, h_comment h, h_changed_by h, h_changed_at h)"

subsection \<open>status_types: StatusTypeManagement\<close>

text \<open>
  \<open>supabase.from('status_types').delete().eq('id', status.id)\<close>. The rows with that id
  which the \<open>USING\<close> of the policy admits are deleted; a row the policy hides is passed
  over, and the statement succeeds all the same. No table references \<open>status_types\<close>, so
  the statement has no error to answer with.
\<close>

definition delete_status_type :: "auth \<Rightarrow> uuid \<Rightarrow> db \<Rightarrow> error + db" where
  "delete_status_type a tid s =
     Inr (s\<lparr>status_types :=
            filter (\<lambda>t. \<not> (st_id t = tid \<and> status_types_delete_policy s a t))
              (status_types s)\<rparr>)"

text \<open>
  What \<open>handleDelete\<close> did: it showed an alert and returned, it returned because the
  confirmation dialog was declined, or it sent the request, with the error it then logged,
  if any.
\<close>

datatype handled = Alerted string | Declined | Requested "error option"

text \<open>
  \<open>handleDelete\<close>: for a default status type, \<open>alert('Cannot delete default status
  types')\<close> and return, before any request is made; \<open>confirmed\<close> is the answer to the
  confirmation dialog.
\<close>

definition handleDelete :: "auth \<Rightarrow> bool \<Rightarrow> status_type_row \<Rightarrow> db \<Rightarrow> handled \<times> db" where
  "handleDelete a confirmed status s =
     (if st_is_default status then (Alerted ''Cannot delete default status types'', s)
      else if \<not> confirmed then (Declined, s)
      else case delete_status_type a (st_id status) s of
             Inl e \<Rightarrow> (Requested (Some e), s)
           | Inr s' \<Rightarrow> (Requested None, s'))"

text \<open>
  \<open>handleToggleActive\<close>: \<open>update({ is_active: !status.is_active }).eq('id', status.id)\<close>,
  under \<open>Admins can update status types\<close>.
\<close>

definition handleToggleActive :: "auth \<Rightarrow> status_type_row \<Rightarrow> db \<Rightarrow> db" where
  "handleToggleActive a status s =
     s\<lparr>status_types :=
         map (\<lambda>t. if st_id t = st_id status \<and> status_types_update_policy s a t
                  then t\<lparr>st_is_active := \<not> st_is_active status\<rparr> else t)
           (status_types s)\<rparr>"

subsection \<open>UPDATE profiles: UserManagement\<close>

text \<open>
  \<open>UPDATE profiles SET ... WHERE id = target\<close>: the rows with that id which the \<open>USING\<close>
  expression admits are rewritten by \<open>set_columns\<close>, the trigger
  \<open>update_profiles_updated_at\<close> stamps them with \<open>now\<close>, and each new row must pass the
  \<open>WITH CHECK\<close>, or the statement fails. A statement that finds no row changes nothing and
  is no error. \<open>Users can update own profile\<close> is the only \<open>UPDATE\<close> policy the migrations
  create on \<open>profiles\<close>.
\<close>

definition update_profile ::
  "auth \<Rightarrow> timestamptz \<Rightarrow> uuid \<Rightarrow> (profile_row \<Rightarrow> profile_row) \<Rightarrow> db \<Rightarrow> error + db" where
  "update_profile a now target set_columns s =
     (if list_ex (\<lambda>p. p_id p = target \<and> profiles_update_using s a p
                      \<and> \<not> profiles_update_check s a ((set_columns p)\<lparr>p_updated_at := now\<rparr>))
           (profiles s)
      then Inl AuthorizationDenied
      else Inr (s\<lparr>profiles :=
                    map (\<lambda>p. if p_id p = target \<and> profiles_update_using s a p
                             then (set_columns p)\<lparr>p_updated_at := now\<rparr> else p)
                      (profiles s)\<rparr>))"

text \<open>
  \<open>handleRoleChange\<close>: \<open>profile\<close> is the signed-in user's profile as the auth context holds
  it. A team leader returns at once; otherwise \<open>update({ role: newRole }).eq('id', userId)\<close>
  is sent, and an error is logged and changes nothing.
\<close>

definition handleRoleChange ::
  "auth \<Rightarrow> profile_row option \<Rightarrow> timestamptz \<Rightarrow> uuid \<Rightarrow> role \<Rightarrow> db \<Rightarrow> db" where
  "handleRoleChange a profile now userId newRole s =
     (if map_option p_role profile = Some Team_leader then s
      else case update_profile a now userId (\<lambda>p. p\<lparr>p_role := newRole\<rparr>) s of
             Inl e \<Rightarrow> s
           | Inr s' \<Rightarrow> s')"

section \<open>Queries of the client\<close>

text \<open>A \<open>SELECT\<close> returns the rows the \<open>SELECT\<close> policies of the caller's role admit.\<close>

definition select_status_history :: "auth \<Rightarrow> db \<Rightarrow> status_history_row list" where
  "select_status_history a s = filter (status_history_select_policy s a) (status_history s)"




text \<open>
  The session: requests of a signed-in \<open>user\<close> run as \<open>authenticated\<close> with that id, the
  others as \<open>anon\<close>.
\<close>

definition session :: "uuid option \<Rightarrow> auth" where
  "session user = (case user of None \<Rightarrow> Anon | Some uid \<Rightarrow> Authenticated uid)"





text \<open>
  \<open>StatusHistory.loadHistory\<close>, the history panel of one machine:
  \<open>.eq('machine_id', machineId).order('changed_at', { ascending: false }).limit(20)\<close>.
\<close>

definition StatusHistory_loadHistory :: "uuid option \<Rightarrow> uuid \<Rightarrow> db \<Rightarrow> status_history_row list" where
  "StatusHistory_loadHistory user machineId s =
     take 20
       (order_changed_at_desc
          (filter (\<lambda>h. h_machine_id h = machineId) (select_status_history (session user) s)))"

section \<open>Example databases\<close>

definition profile_A :: profile_row where
  "profile_A = \<lparr>p_id = ''uA'', p_email = ''a@x'', p_full_name = ''Ada'', p_role = Admin,
     p_updated_at = 0\<rparr>"

definition profile_T :: profile_row where
  "profile_T = \<lparr>p_id = ''uT'', p_email = ''t@x'', p_full_name = ''Tom'', p_role = Team_leader,
     p_updated_at = 0\<rparr>"

definition profile_O :: profile_row where
  "profile_O = \<lparr>p_id = ''uO'', p_email = ''o@x'', p_full_name = ''Oya'', p_role = Operator,
     p_updated_at = 0\<rparr>"

definition machine_M100 :: machine_row where
  "machine_M100 = \<lparr>m_id = ''m1'', m_machine_code = ''M100'', m_machine_name = ''Press'',
     m_description = [], m_current_status = ''Running'', m_last_updated_at = 0,
     m_last_updated_by = None, m_department_id = Some ''dQC''\<rparr>"

definition machine_M200 :: machine_row where
  "machine_M200 = \<lparr>m_id = ''m2'', m_machine_code = ''M200'', m_machine_name = ''Lathe'',
     m_description = [], m_current_status = ''Idle'', m_last_updated_at = 0,
     m_last_updated_by = None, m_department_id = Some ''dProd''\<rparr>"

definition machine_M101 :: machine_row where
  "machine_M101 = \<lparr>m_id = ''m3'', m_machine_code = ''M101'', m_machine_name = ''Gauge'',
     m_description = [], m_current_status = ''Beklemede'', m_last_updated_at = 0,
     m_last_updated_by = None, m_department_id = Some ''dQC''\<rparr>"

definition status_Running :: status_type_row where
  "status_Running = \<lparr>st_id = ''s1'', st_name = ''Running'', st_color = ''green'',
     st_is_default = True, st_is_active = True, st_display_order = 1, st_created_by = None\<rparr>"

definition history_1 :: status_history_row where
  "history_1 = \<lparr>h_id = ''h1'', h_machine_id = ''m1'', h_status = ''Running'',
     h_previous_status = ''Idle'', h_comment = [], h_changed_by = ''uA'', h_changed_at = 10\<rparr>"

definition history_new :: status_history_row where
  "history_new = \<lparr>h_id = ''h2'', h_machine_id = ''m1'', h_status = ''Fault'',
     h_previous_status = ''Running'', h_comment = [], h_changed_by = ''uO'',
     h_changed_at = 20\<rparr>"

definition history_old :: status_history_row where
  "history_old = \<lparr>h_id = ''h3'', h_machine_id = ''m1'', h_status = ''Idle'',
     h_previous_status = [], h_comment = [], h_changed_by = ''uA'', h_changed_at = 30\<rparr>"

definition assignment_new :: machine_operator_row where
  "assignment_new = \<lparr>mo_id = ''a1'', mo_machine_id = ''m2'', mo_user_id = ''uO'',
     mo_assigned_by = Some ''uT''\<rparr>"

definition leader_T :: department_leader_row where
  "leader_T = \<lparr>dl_id = ''l1'', dl_department_id = ''dQC'', dl_user_id = ''uT'',
     dl_assigned_by = Some ''uA''\<rparr>"

text \<open>
  Department \<open>QC\<close> is led by the team leader, department \<open>Prod\<close> by nobody; each holds
  one machine; there is one history record; the operator is assigned to no machine.
\<close>

definition db0 :: db where
  "db0 = \<lparr>profiles = [profile_A, profile_T, profile_O],
     departments = [\<lparr>d_id = ''dQC'', d_name = ''QC'', d_description = [], d_created_by = None\<rparr>,
        \<lparr>d_id = ''dProd'', d_name = ''Prod'', d_description = [], d_created_by = None\<rparr>],
     department_leaders = [leader_T],
     machine_operators = [],
     machines = [machine_M100, machine_M200],
     status_types = [status_Running],
     status_history = [history_1]\<rparr>"




text \<open>Twenty-two status changes of machine \<open>m1\<close>, at the times 0 to 21.\<close>

definition history_at :: "nat \<Rightarrow> status_history_row" where
  "history_at i = \<lparr>h_id = replicate (Suc i) (CHR ''h''), h_machine_id = ''m1'',
     h_status = ''Running'', h_previous_status = ''Idle'', h_comment = [],
     h_changed_by = ''uA'', h_changed_at = int i\<rparr>"

definition db_busy :: db where
  "db_busy = db0\<lparr>status_history := map history_at [0..<22]\<rparr>"

section \<open>Auxiliary facts\<close>

lemmas example_rows =
  profile_A_def profile_T_def profile_O_def machine_M100_def machine_M200_def machine_M101_def
  status_Running_def history_1_def history_new_def history_old_def assignment_new_def
  leader_T_def

lemma profile_role_exclusive:
  assumes "distinct (map p_id (profiles s))"
    and "profile_role_in s uid [r]" and "r \<notin> set rs"
  shows "\<not> profile_role_in s uid rs"
proof
  assume "profile_role_in s uid rs"
  then obtain q where q: "q \<in> set (profiles s)" "p_id q = uid" "p_role q \<in> set rs"
    by (auto simp: profile_role_in_def list_ex_iff)
  from assms(2) obtain p where p: "p \<in> set (profiles s)" "p_id p = uid" "p_role p = r"
    by (auto simp: profile_role_in_def list_ex_iff)
  from assms(1) have "inj_on p_id (set (profiles s))"
    by (simp add: distinct_map)
  with p q have "p = q" by (auto dest: inj_onD)
  with p q assms(3) show False by simp
qed

lemma profile_role_in_has_profile:
  "profile_role_in s uid rs \<Longrightarrow> uid \<in> set (map p_id (profiles s))"
  by (auto simp: profile_role_in_def list_ex_iff)

section \<open>Empty scopes\<close>




text \<open>
  The row policy of \<open>machines\<close> admits a machine on the strength of a leader row or an
  operator row of the caller, whatever the caller's role.
\<close>

lemma machines_select_policy_by_either_row:
  assumes "leads_department s uid (m_department_id m) \<or> operates_machine s uid (m_id m)"
  shows "machines_select_policy s (Authenticated uid) m"
  using assms by (auto simp: machines_select_policy_def)




section \<open>Deleting a department\<close>

text \<open>
  C2 (as amended). Deleting a department never deletes or changes a machine. When a machine
  still refers to the department, an admin's delete is rejected with a foreign key violation
  and nothing changes, so the reference is not set to null. When no machine refers to it,
  an admin's delete removes the department and every leader assignment that refers to it.
\<close>

theorem C2_department_delete:
  fixes s :: db
  shows "(delete_department a did s = Inr s' \<longrightarrow> machines s' = machines s)
       \<and> (profile_role_in s uid [Admin] \<and> did \<in> set (map d_id (departments s))
          \<and> list_ex (\<lambda>m. m_department_id m = Some did) (machines s)
        \<longrightarrow> delete_department (Authenticated uid) did s = Inl ForeignKeyViolation)
       \<and> (profile_role_in s uid [Admin] \<and> did \<in> set (map d_id (departments s))
          \<and> \<not> list_ex (\<lambda>m. m_department_id m = Some did) (machines s)
        \<longrightarrow> delete_department (Authenticated uid) did s
              = Inr (s\<lparr>departments := filter (\<lambda>d. d_id d \<noteq> did) (departments s),
                      department_leaders :=
                        filter (\<lambda>l. dl_department_id l \<noteq> did) (department_leaders s)\<rparr>))"
  by (auto simp: delete_department_def departments_delete_policy_def list_ex_iff
      split: if_splits)

theorem C2_department_delete_witness:
  "delete_department (Authenticated ''uA'') ''dQC'' db0 = Inl ForeignKeyViolation
   \<and> delete_department (Authenticated ''uA'') ''dQC'' (db0\<lparr>machines := [machine_M200]\<rparr>)
       = Inr (db0\<lparr>machines := [machine_M200],
                departments := [\<lparr>d_id = ''dProd'', d_name = ''Prod'', d_description = [],
                                 d_created_by = None\<rparr>],
                department_leaders := []\<rparr>)
   \<and> machines (db0\<lparr>machines := [machine_M200],
                departments := [\<lparr>d_id = ''dProd'', d_name = ''Prod'', d_description = [],
                                 d_created_by = None\<rparr>],
                department_leaders := []\<rparr>) = [machine_M200]"
proof -
  let ?s = "db0\<lparr>machines := [machine_M200]\<rparr>"
  let ?s' = "db0\<lparr>machines := [machine_M200],
                departments := [\<lparr>d_id = ''dProd'', d_name = ''Prod'', d_description = [],
                                 d_created_by = None\<rparr>],
                department_leaders := []\<rparr>"
  have ad: "profile_role_in db0 ''uA'' [Admin]" "profile_role_in ?s ''uA'' [Admin]"
    by (simp_all add: profile_role_in_def db0_def example_rows)
  have ex: "''dQC'' \<in> set (map d_id (departments db0))"
      "''dQC'' \<in> set (map d_id (departments ?s))"
    by (simp_all add: db0_def)
  have used: "list_ex (\<lambda>m. m_department_id m = Some ''dQC'') (machines db0)"
    and unused: "\<not> list_ex (\<lambda>m. m_department_id m = Some ''dQC'') (machines ?s)"
    by (simp_all add: db0_def example_rows)
  from ad ex used C2_department_delete [of _ "''dQC''" db0 _ "''uA''"]
  have refused: "delete_department (Authenticated ''uA'') ''dQC'' db0 = Inl ForeignKeyViolation"
    by simp
  from ad ex unused C2_department_delete [of _ "''dQC''" ?s _ "''uA''"]
  have run: "delete_department (Authenticated ''uA'') ''dQC'' ?s = Inr ?s'"
    by (simp add: db0_def example_rows)
  from run C2_department_delete [of "Authenticated ''uA''" "''dQC''" ?s ?s']
  have "machines ?s' = machines ?s"
    by blast
  with refused run show ?thesis
    by simp
qed

text \<open>
  The claim as stated fails: machine \<open>M100\<close> refers to department \<open>QC\<close>, and the admin's
  delete of \<open>QC\<close> is refused; no state arises in which the department is gone and the
  machine's reference is null.
\<close>

theorem C2_department_with_machine_not_deleted:
  "machines db0 = [machine_M100, machine_M200]
   \<and> m_department_id machine_M100 = Some ''dQC''
   \<and> profile_role_in db0 ''uA'' [Admin]
   \<and> delete_department (Authenticated ''uA'') ''dQC'' db0 = Inl ForeignKeyViolation"
  by (simp add: delete_department_def departments_delete_policy_def profile_role_in_def
      db0_def example_rows)

section \<open>Status history: who may insert, and under which name\<close>

text \<open>
  C3 (as amended). An insertion into \<open>status_history\<close> that names the caller in
  \<open>changed_by\<close> is accepted for every admin and for every operator, whether or not the
  machine is in the caller's scope (given a fresh record id and an existing machine). It is
  rejected, and nothing changes, for an anonymous caller, for a caller without a profile, and
  whenever \<open>changed_by\<close> names somebody else.
\<close>

theorem C3_history_insert_by_role:
  fixes s :: db
  shows "(profile_role_in s uid [Admin, Operator] \<and> h_changed_by h = uid
          \<and> h_id h \<notin> set (map h_id (status_history s))
          \<and> h_machine_id h \<in> set (map m_id (machines s))
        \<longrightarrow> insert_status_history (Authenticated uid) h s
              = Inr (s\<lparr>status_history := status_history s @ [h]\<rparr>))
       \<and> insert_status_history Anon h s = Inl AuthorizationDenied
       \<and> (h_changed_by h \<noteq> uid
            \<longrightarrow> insert_status_history (Authenticated uid) h s = Inl AuthorizationDenied)
       \<and> (uid \<notin> set (map p_id (profiles s))
            \<longrightarrow> insert_status_history (Authenticated uid) h s = Inl AuthorizationDenied)"
  by (auto simp: insert_status_history_def status_history_insert_policy_def
      dest: profile_role_in_has_profile)

theorem C3_history_insert_by_role_witness:
  "insert_status_history (Authenticated ''uA'') (history_new\<lparr>h_changed_by := ''uA''\<rparr>) db0
     = Inr (db0\<lparr>status_history := [history_1, history_new\<lparr>h_changed_by := ''uA''\<rparr>]\<rparr>)
   \<and> insert_status_history Anon history_new db0 = Inl AuthorizationDenied
   \<and> insert_status_history (Authenticated ''uA'') history_new db0 = Inl AuthorizationDenied
   \<and> insert_status_history (Authenticated ''uX'') (history_new\<lparr>h_changed_by := ''uX''\<rparr>) db0
       = Inl AuthorizationDenied"
proof -
  let ?h = "history_new\<lparr>h_changed_by := ''uA''\<rparr>"
  have pre: "profile_role_in db0 ''uA'' [Admin, Operator] \<and> h_changed_by ?h = ''uA''
      \<and> h_id ?h \<notin> set (map h_id (status_history db0))
      \<and> h_machine_id ?h \<in> set (map m_id (machines db0))"
    by (simp add: profile_role_in_def db0_def example_rows)
  have other: "h_changed_by history_new \<noteq> ''uA''"
    by (simp add: example_rows)
  have stranger: "''uX'' \<notin> set (map p_id (profiles db0))"
    by (simp add: db0_def example_rows)
  from pre other stranger
    C3_history_insert_by_role [of db0 "''uA''" ?h]
    C3_history_insert_by_role [of db0 "''uA''" history_new]
    C3_history_insert_by_role [of db0 "''uX''" "history_new\<lparr>h_changed_by := ''uX''\<rparr>"]
  show ?thesis
    by (simp add: db0_def)
qed

text \<open>
  The claim as stated fails: the operator of the example is assigned to no machine and leads
  no department, and the insertion of a record for machine \<open>m1\<close> is accepted.
\<close>

theorem C3_operator_out_of_scope_accepted:
  "profile_role_in db0 ''uO'' [Operator]
   \<and> \<not> operates_machine db0 ''uO'' ''m1''
   \<and> \<not> leads_department db0 ''uO'' (Some ''dQC'')
   \<and> insert_status_history (Authenticated ''uO'') history_new db0
       = Inr (db0\<lparr>status_history := [history_1, history_new]\<rparr>)"
  by (simp add: insert_status_history_def status_history_insert_policy_def
      profile_role_in_def operates_machine_def leads_department_def db0_def example_rows)

text \<open>
  C9. Every accepted insertion into \<open>status_history\<close> carries the caller's own identity in
  \<open>changed_by\<close>: the caller is authenticated and \<open>changed_by\<close> equals \<open>auth.uid()\<close>.
\<close>

theorem C9_changed_by_is_actor:
  assumes "insert_status_history a h s = Inr s'"
  shows "a = Authenticated (h_changed_by h)"
  using assms
  by (cases a) (auto simp: insert_status_history_def status_history_insert_policy_def
      split: if_splits)

theorem C9_changed_by_is_actor_witness:
  "insert_status_history (Authenticated ''uO'') history_new db0
     = Inr (db0\<lparr>status_history := [history_1, history_new]\<rparr>)
   \<and> Authenticated ''uO'' = Authenticated (h_changed_by history_new)"
proof -
  have run: "insert_status_history (Authenticated ''uO'') history_new db0
     = Inr (db0\<lparr>status_history := [history_1, history_new]\<rparr>)"
    by (simp add: insert_status_history_def status_history_insert_policy_def
        profile_role_in_def db0_def example_rows)
  from C9_changed_by_is_actor [OF run] run show ?thesis by simp
qed

section \<open>The status history is append-only, up to the deletion of a machine\<close>

lemma backfill_step_other_columns:
  "map other_columns (backfill_step r hs) = map other_columns hs"
  by (cases "previous_status_of hs r")
    (simp_all add: backfill_step_def other_columns_def comp_def)

lemma fold_backfill_step_other_columns:
  "map other_columns (fold backfill_step rs hs) = map other_columns hs"
  by (induction rs arbitrary: hs) (simp_all add: backfill_step_other_columns)

text \<open>
  C4 (as amended). For every caller, admin included, an \<open>UPDATE\<close> or \<open>DELETE\<close> on
  \<open>status_history\<close> changes nothing, and an accepted insertion appends its record and keeps
  the others. Deleting a machine removes exactly the history records of that machine, and
  only an admin can delete a machine. The backfill of the migration removes no record and
  rewrites no column but \<open>previous_status\<close>.
\<close>

theorem C4_history_only_removed_with_machine:
  fixes s :: db
  shows "update_status_history a cond f s = s
       \<and> delete_status_history a cond s = s
       \<and> (insert_status_history a h s = Inr s' \<longrightarrow> status_history s' = status_history s @ [h])
       \<and> status_history (delete_machine a mid s)
           = (if list_ex (\<lambda>m. m_id m = mid \<and> machines_delete_policy s a m) (machines s)
              then filter (\<lambda>h. h_machine_id h \<noteq> mid) (status_history s)
              else status_history s)
       \<and> (\<not> profile_role_in s uid [Admin] \<longrightarrow> delete_machine (Authenticated uid) mid s = s)
       \<and> delete_machine Anon mid s = s
       \<and> map other_columns (status_history (backfill_previous_status s))
           = map other_columns (status_history s)"
proof -
  have direct: "update_status_history a cond f s = s" "delete_status_history a cond s = s"
    by (simp_all add: update_status_history_def delete_status_history_def
        status_history_update_policy_def status_history_delete_policy_def)
  have ins: "status_history s' = status_history s @ [h]"
    if "insert_status_history a h s = Inr s'"
    using that by (auto simp: insert_status_history_def split: if_splits)
  have del: "status_history (delete_machine a mid s)
      = (if list_ex (\<lambda>m. m_id m = mid \<and> machines_delete_policy s a m) (machines s)
         then filter (\<lambda>h. h_machine_id h \<noteq> mid) (status_history s)
         else status_history s)"
    by (simp add: delete_machine_def)
  have denied: "delete_machine (Authenticated uid) mid s = s"
    if "\<not> profile_role_in s uid [Admin]"
    using that by (simp add: delete_machine_def machines_delete_policy_def list_ex_iff)
  have anon: "delete_machine Anon mid s = s"
    by (simp add: delete_machine_def machines_delete_policy_def list_ex_iff)
  have fill: "map other_columns (status_history (backfill_previous_status s))
      = map other_columns (status_history s)"
    by (simp add: backfill_previous_status_def fold_backfill_step_other_columns)
  from direct ins del denied anon fill show ?thesis by blast
qed

theorem C4_history_only_removed_with_machine_witness:
  "update_status_history (Authenticated ''uA'') (\<lambda>h. h_id h = ''h1'')
       (\<lambda>h. h\<lparr>h_status := ''Idle''\<rparr>) db0 = db0
   \<and> delete_status_history (Authenticated ''uA'') (\<lambda>h. h_id h = ''h1'') db0 = db0
   \<and> status_history (delete_machine (Authenticated ''uA'') ''m2'' db0) = [history_1]
   \<and> delete_machine (Authenticated ''uO'') ''m1'' db0 = db0
   \<and> map other_columns (status_history (backfill_previous_status db0)) = [other_columns history_1]
   \<and> insert_status_history (Authenticated ''uO'') history_new db0
       = Inr (db0\<lparr>status_history := [history_1, history_new]\<rparr>)
   \<and> status_history (db0\<lparr>status_history := [history_1, history_new]\<rparr>)
       = status_history db0 @ [history_new]"
proof -
  have op: "\<not> profile_role_in db0 ''uO'' [Admin]"
    by (simp add: profile_role_in_def db0_def example_rows)
  have run: "insert_status_history (Authenticated ''uO'') history_new db0
      = Inr (db0\<lparr>status_history := [history_1, history_new]\<rparr>)"
    by (simp add: insert_status_history_def status_history_insert_policy_def
        profile_role_in_def db0_def example_rows)
  from op run
    C4_history_only_removed_with_machine
      [of "Authenticated ''uO''" _ _ db0 history_new
        "db0\<lparr>status_history := [history_1, history_new]\<rparr>"]
    C4_history_only_removed_with_machine
      [of "Authenticated ''uA''" "\<lambda>h. h_id h = ''h1''" "\<lambda>h. h\<lparr>h_status := ''Idle''\<rparr>" db0
        _ _ "''m2''" "''uO''"]
    C4_history_only_removed_with_machine [of "Authenticated ''uO''" _ _ db0 _ _ "''m1''" "''uO''"]
  show ?thesis
    by (simp add: machines_delete_policy_def profile_role_in_def db0_def example_rows)
qed

text \<open>
  The claim as stated fails: the admin deletes machine \<open>m1\<close>, and its history record goes
  with it; and the backfill rewrites the stored record \<open>history_old\<close>.
\<close>

theorem C4_machine_delete_removes_history:
  "history_1 \<in> set (status_history db0)
   \<and> profile_role_in db0 ''uA'' [Admin]
   \<and> status_history (delete_machine (Authenticated ''uA'') ''m1'' db0) = []
   \<and> status_history (backfill_previous_status (db0\<lparr>status_history := [history_1, history_old]\<rparr>))
       = [history_1, history_old\<lparr>h_previous_status := ''Running''\<rparr>]"
  by (simp add: delete_machine_def machines_delete_policy_def profile_role_in_def
      backfill_previous_status_def backfill_step_def previous_status_of_def
      order_changed_at_desc_def db0_def example_rows)

section \<open>Machine operator assignments\<close>




section \<open>Creating machines\<close>

text \<open>
  C6. With one profile per identity: a team leader's insertion of a machine is accepted when
  the machine's department is one the caller leads, and rejected with
  \<open>AuthorizationDenied\<close> when it is not; an admin's insertion is accepted for any
  department. Accepted means that the machine is added, given that its id and code are new
  and that the department and user it refers to exist.
\<close>

theorem C6_machine_insert_guard:
  fixes s :: db
  assumes "distinct (map p_id (profiles s))"
  shows "(profile_role_in s uid [Team_leader] \<and> leads_department s uid (m_department_id m)
          \<and> m_id m \<notin> set (map m_id (machines s))
          \<and> m_machine_code m \<notin> set (map m_machine_code (machines s))
          \<and> references (m_department_id m) (map d_id (departments s))
          \<and> references (m_last_updated_by m) (map p_id (profiles s))
        \<longrightarrow> insert_machine (Authenticated uid) m s = Inr (s\<lparr>machines := machines s @ [m]\<rparr>))
       \<and> (profile_role_in s uid [Team_leader] \<and> \<not> leads_department s uid (m_department_id m)
        \<longrightarrow> insert_machine (Authenticated uid) m s = Inl AuthorizationDenied)
       \<and> (profile_role_in s uid [Admin]
          \<and> m_id m \<notin> set (map m_id (machines s))
          \<and> m_machine_code m \<notin> set (map m_machine_code (machines s))
          \<and> references (m_department_id m) (map d_id (departments s))
          \<and> references (m_last_updated_by m) (map p_id (profiles s))
        \<longrightarrow> insert_machine (Authenticated uid) m s = Inr (s\<lparr>machines := machines s @ [m]\<rparr>))"
  using profile_role_exclusive [OF assms, of uid Team_leader "[Admin]"]
  by (auto simp: insert_machine_def machines_insert_policy_def)

theorem C6_machine_insert_guard_witness:
  "insert_machine (Authenticated ''uT'') machine_M101 db0
     = Inr (db0\<lparr>machines := [machine_M100, machine_M200, machine_M101]\<rparr>)
   \<and> insert_machine (Authenticated ''uT'') (machine_M101\<lparr>m_department_id := Some ''dProd''\<rparr>) db0
     = Inl AuthorizationDenied
   \<and> insert_machine (Authenticated ''uA'') (machine_M101\<lparr>m_department_id := Some ''dProd''\<rparr>) db0
     = Inr (db0\<lparr>machines :=
         [machine_M100, machine_M200, machine_M101\<lparr>m_department_id := Some ''dProd''\<rparr>]\<rparr>)"
proof -
  let ?m = "machine_M101\<lparr>m_department_id := Some ''dProd''\<rparr>"
  have d: "distinct (map p_id (profiles db0))"
    by (simp add: db0_def example_rows)
  have tl: "profile_role_in db0 ''uT'' [Team_leader]"
    and ad: "profile_role_in db0 ''uA'' [Admin]"
    by (simp_all add: profile_role_in_def db0_def example_rows)
  have led: "leads_department db0 ''uT'' (m_department_id machine_M101)"
    and not_led: "\<not> leads_department db0 ''uT'' (m_department_id ?m)"
    by (simp_all add: leads_department_def db0_def example_rows)
  have fresh: "m_id machine_M101 \<notin> set (map m_id (machines db0))"
      "m_machine_code machine_M101 \<notin> set (map m_machine_code (machines db0))"
      "references (m_department_id machine_M101) (map d_id (departments db0))"
      "references (m_department_id ?m) (map d_id (departments db0))"
      "references (m_last_updated_by machine_M101) (map p_id (profiles db0))"
    by (simp_all add: references_def db0_def example_rows)
  from tl ad led not_led fresh
    C6_machine_insert_guard [OF d, of "''uT''" machine_M101]
    C6_machine_insert_guard [OF d, of "''uT''" ?m]
    C6_machine_insert_guard [OF d, of "''uA''" ?m]
  show ?thesis
    by (simp add: db0_def)
qed

section \<open>Default status types\<close>

text \<open>
  C7 (as amended). A status type with \<open>is_default = true\<close> is deleted by nobody, admin
  included, and stays in the catalog. \<open>handleDelete\<close> refuses it with the alert and leaves
  the database alone. A \<open>DELETE\<close> sent to the datastore is not answered with an error: it
  succeeds, and the status type is still stored; with one row per id, the delete aimed at it
  succeeds and leaves the database as it was. An admin can still deactivate it:
  \<open>handleToggleActive\<close> on an active status type stores it with \<open>is_active = false\<close>.
\<close>

theorem C7_default_status_type_stays:
  fixes s :: db
  shows "(st_is_default t
        \<longrightarrow> handleDelete a confirmed t s = (Alerted ''Cannot delete default status types'', s))
       \<and> (t \<in> set (status_types s) \<and> st_is_default t
        \<longrightarrow> (case delete_status_type a tid s of
               Inl e \<Rightarrow> False
             | Inr s' \<Rightarrow> t \<in> set (status_types s')))
       \<and> (distinct (map st_id (status_types s)) \<and> t \<in> set (status_types s) \<and> st_is_default t
        \<longrightarrow> delete_status_type a (st_id t) s = Inr s)
       \<and> (profile_role_in s uid [Admin] \<and> t \<in> set (status_types s) \<and> st_is_active t
        \<longrightarrow> t\<lparr>st_is_active := False\<rparr>
              \<in> set (status_types (handleToggleActive (Authenticated uid) t s)))"
proof -
  have same: "filter (\<lambda>x. \<not> (st_id x = st_id t \<and> status_types_delete_policy s a x)) (status_types s)
      = status_types s"
    if d: "distinct (map st_id (status_types s))" and t: "t \<in> set (status_types s)"
      and dflt: "st_is_default t"
  proof -
    from d have inj: "inj_on st_id (set (status_types s))"
      by (simp add: distinct_map)
    have "\<not> (st_id x = st_id t \<and> status_types_delete_policy s a x)"
      if "x \<in> set (status_types s)" for x
    proof
      assume h: "st_id x = st_id t \<and> status_types_delete_policy s a x"
      with inj that t have "x = t" by (auto dest: inj_onD)
      with h dflt show False
        by (cases a) (simp_all add: status_types_delete_policy_def)
    qed
    then show ?thesis by (simp add: filter_id_conv)
  qed
  have keep: "case delete_status_type a tid s of
                Inl e \<Rightarrow> False
              | Inr s' \<Rightarrow> t \<in> set (status_types s')"
    if "t \<in> set (status_types s)" "st_is_default t"
    using that by (cases a) (simp_all add: delete_status_type_def status_types_delete_policy_def)
  have toggle: "t\<lparr>st_is_active := False\<rparr>
      \<in> set (status_types (handleToggleActive (Authenticated uid) t s))"
    if "profile_role_in s uid [Admin]" "t \<in> set (status_types s)" "st_is_active t"
    using that by (force simp: handleToggleActive_def status_types_update_policy_def)
  from same keep toggle show ?thesis
    by (simp add: handleDelete_def delete_status_type_def)
qed

theorem C7_default_status_type_stays_witness:
  "handleDelete (Authenticated ''uA'') True status_Running db0
     = (Alerted ''Cannot delete default status types'', db0)
   \<and> delete_status_type (Authenticated ''uA'') ''s1'' db0 = Inr db0
   \<and> status_Running \<in> set (status_types db0)
   \<and> status_Running\<lparr>st_is_active := False\<rparr>
       \<in> set (status_types (handleToggleActive (Authenticated ''uA'') status_Running db0))"
proof -
  have pre: "status_Running \<in> set (status_types db0)" "st_is_default status_Running"
      "st_is_active status_Running" "distinct (map st_id (status_types db0))"
      "profile_role_in db0 ''uA'' [Admin]" "st_id status_Running = ''s1''"
    by (simp_all add: profile_role_in_def db0_def example_rows)
  from pre
    C7_default_status_type_stays
      [of status_Running "Authenticated ''uA''" True db0 "''s1''" "''uA''"]
  show ?thesis by simp
qed

text \<open>
  The claim as stated fails: the admin's \<open>DELETE\<close> of the default status type \<open>Running\<close>,
  and the operator's, are not rejected. The datastore answers each with success, having
  deleted no row.
\<close>

theorem C7_delete_of_default_answered_with_success:
  "st_is_default status_Running
   \<and> st_id status_Running = ''s1''
   \<and> status_types db0 = [status_Running]
   \<and> profile_role_in db0 ''uA'' [Admin]
   \<and> delete_status_type (Authenticated ''uA'') ''s1'' db0 = Inr db0
   \<and> delete_status_type (Authenticated ''uO'') ''s1'' db0 = Inr db0"
  by (simp add: delete_status_type_def status_types_delete_policy_def profile_role_in_def
      db0_def example_rows)

section \<open>Changing a profile's role\<close>

text \<open>
  With one profile per identity, the subquery of the \<open>WITH CHECK\<close> finds the caller's own
  row, so no \<open>UPDATE\<close> that row level security lets through changes anybody's role.
\<close>

lemma find_own_profile:
  assumes "distinct (map p_id (profiles s))" and "p \<in> set (profiles s)"
  shows "find (\<lambda>q. p_id q = p_id p) (profiles s) = Some p"
proof -
  from assms(1) have inj: "inj_on p_id (set (profiles s))"
    by (simp add: distinct_map)
  obtain q where q: "find (\<lambda>q. p_id q = p_id p) (profiles s) = Some q"
    using assms(2) by (cases "find (\<lambda>q. p_id q = p_id p) (profiles s)") (auto simp: find_None_iff)
  then have "q \<in> set (profiles s)" "p_id q = p_id p"
    by (auto simp: find_Some_iff)
  with inj assms(2) have "q = p" by (auto dest: inj_onD)
  with q show ?thesis by simp
qed

lemma update_profile_keeps_roles:
  assumes d: "distinct (map p_id (profiles s))"
    and run: "update_profile a now target set_columns s = Inr s'"
  shows "map p_role (profiles s') = map p_role (profiles s)"
proof -
  let ?new = "\<lambda>p. (set_columns p)\<lparr>p_updated_at := now\<rparr>"
  let ?hit = "\<lambda>p. p_id p = target \<and> profiles_update_using s a p"
  from run have ok: "\<not> list_ex (\<lambda>p. ?hit p \<and> \<not> profiles_update_check s a (?new p)) (profiles s)"
    and s': "profiles s' = map (\<lambda>p. if ?hit p then ?new p else p) (profiles s)"
    by (auto simp: update_profile_def split: if_splits)
  have "p_role (if ?hit p then ?new p else p) = p_role p" if p: "p \<in> set (profiles s)" for p
  proof (cases "?hit p")
    case False
    then show ?thesis by auto
  next
    case True
    with ok p have chk: "profiles_update_check s a (?new p)"
      by (auto simp: list_ex_iff)
    from True obtain uid where a: "a = Authenticated uid" and uid: "uid = p_id p"
      by (cases a) (auto simp: profiles_update_using_def)
    from find_own_profile [OF d p] uid
    have "find (\<lambda>q. p_id q = uid) (profiles s) = Some p" by simp
    with chk a have "p_role (?new p) = p_role p"
      by (simp add: profiles_update_check_def)
    with True show ?thesis by simp
  qed
  with s' show ?thesis by (simp add: comp_def)
qed

text \<open>A user's update of the own \<open>full_name\<close> is accepted and stored.\<close>

lemma update_own_full_name:
  assumes d: "distinct (map p_id (profiles s))" and p: "p \<in> set (profiles s)"
  shows "\<exists>s'. update_profile (Authenticated (p_id p)) now (p_id p)
                 (\<lambda>q. q\<lparr>p_full_name := name\<rparr>) s = Inr s'
             \<and> p\<lparr>p_full_name := name, p_updated_at := now\<rparr> \<in> set (profiles s')"
proof -
  have "\<not> list_ex (\<lambda>q. p_id q = p_id p \<and> profiles_update_using s (Authenticated (p_id p)) q
          \<and> \<not> profiles_update_check s (Authenticated (p_id p))
                (q\<lparr>p_full_name := name, p_updated_at := now\<rparr>)) (profiles s)"
  proof
    assume "list_ex (\<lambda>q. p_id q = p_id p \<and> profiles_update_using s (Authenticated (p_id p)) q
          \<and> \<not> profiles_update_check s (Authenticated (p_id p))
                (q\<lparr>p_full_name := name, p_updated_at := now\<rparr>)) (profiles s)"
    then obtain q where q: "q \<in> set (profiles s)" "p_id q = p_id p"
      "\<not> profiles_update_check s (Authenticated (p_id p))
          (q\<lparr>p_full_name := name, p_updated_at := now\<rparr>)"
      by (auto simp: list_ex_iff)
    from find_own_profile [OF d q(1)] q(2)
    have "find (\<lambda>r. p_id r = p_id p) (profiles s) = Some q" by simp
    with q show False by (simp add: profiles_update_check_def)
  qed
  then have "update_profile (Authenticated (p_id p)) now (p_id p)
                 (\<lambda>q. q\<lparr>p_full_name := name\<rparr>) s
      = Inr (s\<lparr>profiles := map (\<lambda>q. if p_id q = p_id p
                                         \<and> profiles_update_using s (Authenticated (p_id p)) q
                                       then q\<lparr>p_full_name := name, p_updated_at := now\<rparr> else q)
                               (profiles s)\<rparr>)"
    by (simp add: update_profile_def)
  moreover from p have "p\<lparr>p_full_name := name, p_updated_at := now\<rparr>
      \<in> set (map (\<lambda>q. if p_id q = p_id p \<and> profiles_update_using s (Authenticated (p_id p)) q
                       then q\<lparr>p_full_name := name, p_updated_at := now\<rparr> else q) (profiles s))"
    by (force simp: profiles_update_using_def)
  ultimately show ?thesis by simp
qed

text \<open>
  C8, at the input where the code departs from it. The admin of the example changes the
  operator's role to team leader. The only \<open>UPDATE\<close> policy on \<open>profiles\<close> admits the
  caller's own row, so the statement finds no row: it succeeds and the database is as it
  was, in the statement and in \<open>handleRoleChange\<close>.
\<close>

theorem C8_admin_role_change_has_no_effect:
  "profile_role_in db0 ''uA'' [Admin]
   \<and> update_profile (Authenticated ''uA'') 7 ''uO'' (\<lambda>p. p\<lparr>p_role := Team_leader\<rparr>) db0 = Inr db0
   \<and> handleRoleChange (Authenticated ''uA'') (Some profile_A) 7 ''uO'' Team_leader db0 = db0"
  by (simp add: handleRoleChange_def update_profile_def profiles_update_using_def
      profiles_update_check_def profile_role_in_def db0_def example_rows)

section \<open>The history panel of a machine\<close>

lemma select_status_history_all: "select_status_history a s = status_history s"
  by (cases a) (simp_all add: select_status_history_def status_history_select_policy_def)

lemma order_changed_at_desc_sorted:
  "sorted_wrt (\<lambda>x y. h_changed_at y \<le> h_changed_at x) (order_changed_at_desc hs)"
proof -
  have "sorted (map (\<lambda>h. - h_changed_at h) (order_changed_at_desc hs))"
    by (simp add: order_changed_at_desc_def)
  then show ?thesis
    by (simp add: sorted_wrt_map)
qed

text \<open>
  C10. The panel shows at most 20 records: as many as the machine has, up to 20. They are
  records of that machine, ordered by \<open>changed_at\<close> descending, and they are the most
  recent ones: together with the records left out (\<open>rest\<close>) they make up all records of the
  machine in the store, and no record left out is more recent than a record shown.
\<close>

theorem C10_latest_twenty:
  fixes s :: db
  shows "\<exists>rest.
     length (StatusHistory_loadHistory user machineId s)
       = min 20 (length (filter (\<lambda>h. h_machine_id h = machineId) (status_history s)))
     \<and> sorted_wrt (\<lambda>x y. h_changed_at y \<le> h_changed_at x)
         (StatusHistory_loadHistory user machineId s)
     \<and> mset (StatusHistory_loadHistory user machineId s @ rest)
         = mset (filter (\<lambda>h. h_machine_id h = machineId) (status_history s))
     \<and> (\<forall>x \<in> set (StatusHistory_loadHistory user machineId s). \<forall>y \<in> set rest.
           h_changed_at y \<le> h_changed_at x)"
proof -
  define xs where
    "xs = order_changed_at_desc (filter (\<lambda>h. h_machine_id h = machineId) (status_history s))"
  have r: "StatusHistory_loadHistory user machineId s = take 20 xs"
    by (simp add: StatusHistory_loadHistory_def xs_def select_status_history_all)
  have len: "length xs = length (filter (\<lambda>h. h_machine_id h = machineId) (status_history s))"
    and ms: "mset xs = mset (filter (\<lambda>h. h_machine_id h = machineId) (status_history s))"
    by (simp_all add: xs_def order_changed_at_desc_def)
  have srt: "sorted_wrt (\<lambda>x y. h_changed_at y \<le> h_changed_at x) xs"
    unfolding xs_def by (rule order_changed_at_desc_sorted)
  then have "sorted_wrt (\<lambda>x y. h_changed_at y \<le> h_changed_at x) (take 20 xs @ drop 20 xs)"
    by simp
  then have split: "sorted_wrt (\<lambda>x y. h_changed_at y \<le> h_changed_at x) (take 20 xs)"
      "\<forall>x \<in> set (take 20 xs). \<forall>y \<in> set (drop 20 xs). h_changed_at y \<le> h_changed_at x"
    unfolding sorted_wrt_append by blast+
  have "mset (take 20 xs @ drop 20 xs) = mset xs"
    by simp
  with ms have whole: "mset (take 20 xs @ drop 20 xs)
      = mset (filter (\<lambda>h. h_machine_id h = machineId) (status_history s))"
    by simp
  have "length (take 20 xs)
      = min 20 (length (filter (\<lambda>h. h_machine_id h = machineId) (status_history s)))"
    using len by simp
  with split whole show ?thesis
    unfolding r by blast
qed

theorem C10_latest_twenty_witness:
  "length (StatusHistory_loadHistory None ''m1'' db_busy) = 20
   \<and> map h_changed_at (StatusHistory_loadHistory None ''m1'' db_busy)
       = [21, 20, 19, 18, 17, 16, 15, 14, 13, 12, 11, 10, 9, 8, 7, 6, 5, 4, 3, 2]"
proof -
  have stored: "length (filter (\<lambda>h. h_machine_id h = ''m1'') (status_history db_busy)) = 22"
    by code_simp
  have shown: "map h_changed_at (StatusHistory_loadHistory None ''m1'' db_busy)
      = [21, 20, 19, 18, 17, 16, 15, 14, 13, 12, 11, 10, 9, 8, 7, 6, 5, 4, 3, 2]"
    by code_simp
  from C10_latest_twenty [of None "''m1''" db_busy] stored
  have "length (StatusHistory_loadHistory None ''m1'' db_busy) = 20"
    by auto
  with shown show ?thesis
    by simp
qed

end
